theory Spec2Isabelle
  imports Main "HOL-Library.Sublist" "HOL-Library.AList"
begin

section \<open>Strings of the runtime\<close>

text \<open>
  A JavaScript string is a sequence of UTF-16 code units. Every character of the station
  table lies in the Basic Multilingual Plane, so each is one code unit. A code unit is
  modelled by its numeric value; \<open>asc\<close> embeds an ASCII literal.
\<close>

type_synonym code_unit = nat
type_synonym jsstring = "code_unit list"

definition asc :: "string \<Rightarrow> jsstring" where
  "asc s = map of_char s"

text \<open>\<^verbatim>\<open>s.includes(q)\<close>: does \<open>q\<close> occur in \<open>s\<close> as a contiguous run of code units.\<close>

fun str_includes :: "jsstring \<Rightarrow> jsstring \<Rightarrow> bool" where
  "str_includes [] q = (q = [])"
| "str_includes (c # cs) q = (prefix q (c # cs) \<or> str_includes cs q)"

text \<open>
  \<^verbatim>\<open>toLowerCase\<close> is a built-in of the runtime (the Unicode default case conversion) and
  is a parameter of everything below that calls it. \<open>toLowerCase_basic\<close> is that
  conversion on strings made of Basic Latin, CJK ideographs and the fullwidth
  parentheses (\<open>plain\<close>), the alphabet of the station table: only the letters A to Z
  change there.
\<close>

definition lower_unit :: "code_unit \<Rightarrow> code_unit" where
  "lower_unit u = (if 65 \<le> u \<and> u \<le> 90 then u + 32 else u)"

definition toLowerCase_basic :: "jsstring \<Rightarrow> jsstring" where
  "toLowerCase_basic s = map lower_unit s"

definition plain_unit :: "code_unit \<Rightarrow> bool" where
  "plain_unit u = (u < 128 \<or> (0x4E00 \<le> u \<and> u \<le> 0x9FFF) \<or> u = 0xFF08 \<or> u = 0xFF09)"

definition plain :: "jsstring \<Rightarrow> bool" where
  "plain s = list_all plain_unit s"

definition lowers_plain :: "(jsstring \<Rightarrow> jsstring) \<Rightarrow> bool" where
  "lowers_plain toLowerCase = (\<forall>s. plain s \<longrightarrow> toLowerCase s = toLowerCase_basic s)"

section \<open>The station table\<close>

text \<open>
  \<^verbatim>\<open>const STATIONS: Record<string, string> = { "1": "...", ... }\<close>, the properties in
  the order of the object literal. An object literal creates its properties in source
  order; a repeated key overwrites the value and keeps the first position.
\<close>

definition STATIONS_literal :: "(jsstring \<times> jsstring) list" where
  "STATIONS_literal = [
    (asc ''1'', asc ''Tuen Mun Ferry Pier ('' @ [0x5C6F, 0x9580, 0x78BC, 0x982D] @ asc '')''),
    (asc ''10'', asc ''Melody Garden ('' @ [0x7F8E, 0x6A02] @ asc '')''),
    (asc ''15'', asc ''Butterfly ('' @ [0x8774, 0x8776] @ asc '')''),
    (asc ''20'', asc ''Light Rail Depot ('' @ [0x8F15, 0x9435, 0x8ECA, 0x5EE0] @ asc '')''),
    (asc ''30'', asc ''Lung Mun ('' @ [0x9F8D, 0x9580] @ asc '')''),
    (asc ''40'', asc ''Tsing Shan Tsuen ('' @ [0x9752, 0x5C71, 0x6751] @ asc '')''),
    (asc ''50'', asc ''Tsing Wun ('' @ [0x9752, 0x96F2] @ asc '')''),
    (asc ''60'', asc ''Kin On ('' @ [0x5EFA, 0x5B89] @ asc '')''),
    (asc ''70'', asc ''Ho Tin ('' @ [0x6CB3, 0x7530] @ asc '')''),
    (asc ''75'', asc ''Choy Yee Bridge ('' @ [0x8521, 0x610F, 0x6A4B] @ asc '')''),
    (asc ''80'', asc ''Affluence ('' @ [0x6FA4, 0x8C50] @ asc '')''),
    (asc ''90'', asc ''Tuen Mun Hospital ('' @ [0x5C6F, 0x9580, 0x91AB, 0x9662] @ asc '')''),
    (asc ''100'', asc ''Siu Hong ('' @ [0x5146, 0x5EB7] @ asc '')''),
    (asc ''110'', asc ''Kei Lun ('' @ [0x9E92, 0x9E9F] @ asc '')''),
    (asc ''120'', asc ''Ching Chung ('' @ [0x9752, 0x677E] @ asc '')''),
    (asc ''130'', asc ''Kin Sang ('' @ [0x5EFA, 0x751F] @ asc '')''),
    (asc ''140'', asc ''Tin King ('' @ [0x7530, 0x666F] @ asc '')''),
    (asc ''150'', asc ''Leung King ('' @ [0x826F, 0x666F] @ asc '')''),
    (asc ''160'', asc ''San Wai ('' @ [0x65B0, 0x570D] @ asc '')''),
    (asc ''170'', asc ''Shek Pai ('' @ [0x77F3, 0x6392] @ asc '')''),
    (asc ''180'', asc ''Shan King (North) ('' @ [0x5C71, 0x666F, 0xFF08, 0x5317, 0xFF09] @ asc '')''),
    (asc ''190'', asc ''Shan King (South) ('' @ [0x5C71, 0x666F, 0xFF08, 0x5357, 0xFF09] @ asc '')''),
    (asc ''200'', asc ''Ming Kum ('' @ [0x9CF4, 0x7434] @ asc '')''),
    (asc ''212'', asc ''Tai Hing (North) ('' @ [0x5927, 0x8208, 0xFF08, 0x5317, 0xFF09] @ asc '')''),
    (asc ''220'', asc ''Tai Hing (South) ('' @ [0x5927, 0x8208, 0xFF08, 0x5357, 0xFF09] @ asc '')''),
    (asc ''230'', asc ''Ngan Wai ('' @ [0x9280, 0x570D] @ asc '')''),
    (asc ''240'', asc ''Siu Hei ('' @ [0x5146, 0x79A7] @ asc '')''),
    (asc ''250'', asc ''Tuen Mun Swimming Pool ('' @ [0x5C6F, 0x9580, 0x6CF3, 0x6C60] @ asc '')''),
    (asc ''260'', asc ''Goodview Garden ('' @ [0x8C50, 0x666F, 0x5712] @ asc '')''),
    (asc ''265'', asc ''Siu Lun ('' @ [0x5146, 0x9E9F] @ asc '')''),
    (asc ''270'', asc ''On Ting ('' @ [0x5B89, 0x5B9A] @ asc '')''),
    (asc ''275'', asc ''Yau Oi ('' @ [0x53CB, 0x611B] @ asc '')''),
    (asc ''280'', asc ''Town Centre ('' @ [0x5E02, 0x4E2D, 0x5FC3] @ asc '')''),
    (asc ''295'', asc ''Tuen Mun ('' @ [0x5C6F, 0x9580] @ asc '')''),
    (asc ''300'', asc ''Pui To ('' @ [0x676F, 0x6E21] @ asc '')''),
    (asc ''310'', asc ''Hoh Fuk Tong ('' @ [0x4F55, 0x798F, 0x5802] @ asc '')''),
    (asc ''320'', asc ''San Hui ('' @ [0x65B0, 0x589F] @ asc '')''),
    (asc ''330'', asc ''Prime View ('' @ [0x666F, 0x5CF0] @ asc '')''),
    (asc ''340'', asc ''Fung Tei ('' @ [0x9CF3, 0x5730] @ asc '')''),
    (asc ''350'', asc ''Lam Tei ('' @ [0x85CD, 0x5730] @ asc '')''),
    (asc ''360'', asc ''Nai Wai ('' @ [0x6CE5, 0x570D] @ asc '')''),
    (asc ''370'', asc ''Chung Uk Tsuen ('' @ [0x937E, 0x5C4B, 0x6751] @ asc '')''),
    (asc ''380'', asc ''Hung Shui Kiu ('' @ [0x6D2A, 0x6C34, 0x6A4B] @ asc '')''),
    (asc ''390'', asc ''Tong Fong Tsuen ('' @ [0x5858, 0x574A, 0x6751] @ asc '')''),
    (asc ''400'', asc ''Ping Shan ('' @ [0x5C4F, 0x5C71] @ asc '')''),
    (asc ''425'', asc ''Hang Mei Tsuen ('' @ [0x5751, 0x5C3E, 0x6751] @ asc '')''),
    (asc ''430'', asc ''Tin Shui Wai ('' @ [0x5929, 0x6C34, 0x570D] @ asc '')''),
    (asc ''435'', asc ''Tin Tsz ('' @ [0x5929, 0x6148] @ asc '')''),
    (asc ''445'', asc ''Tin Yiu ('' @ [0x5929, 0x8000] @ asc '')''),
    (asc ''448'', asc ''Locwood ('' @ [0x6A02, 0x6E56] @ asc '')''),
    (asc ''450'', asc ''Tin Wu ('' @ [0x5929, 0x6E56] @ asc '')''),
    (asc ''455'', asc ''Ginza ('' @ [0x9280, 0x5EA7] @ asc '')''),
    (asc ''460'', asc ''Tin Shui ('' @ [0x5929, 0x745E] @ asc '')''),
    (asc ''468'', asc ''Chung Fu ('' @ [0x980C, 0x5BCC] @ asc '')''),
    (asc ''480'', asc ''Tin Fu ('' @ [0x5929, 0x5BCC] @ asc '')''),
    (asc ''490'', asc ''Chestwood ('' @ [0x7FE0, 0x6E56] @ asc '')''),
    (asc ''500'', asc ''Tin Wing ('' @ [0x5929, 0x69AE] @ asc '')''),
    (asc ''510'', asc ''Tin Yuet ('' @ [0x5929, 0x6085] @ asc '')''),
    (asc ''520'', asc ''Tin Sau ('' @ [0x5929, 0x79C0] @ asc '')''),
    (asc ''530'', asc ''Wetland Park ('' @ [0x6FD5, 0x5730, 0x516C, 0x5712] @ asc '')''),
    (asc ''540'', asc ''Tin Heng ('' @ [0x5929, 0x6052] @ asc '')''),
    (asc ''550'', asc ''Tin Yat ('' @ [0x5929, 0x9038] @ asc '')''),
    (asc ''560'', asc ''Shui Pin Wai ('' @ [0x6C34, 0x908A, 0x570D] @ asc '')''),
    (asc ''570'', asc ''Fung Nin Road ('' @ [0x8C50, 0x5E74, 0x8DEF] @ asc '')''),
    (asc ''580'', asc ''Hong Lok Road ('' @ [0x5EB7, 0x6A02, 0x8DEF] @ asc '')''),
    (asc ''590'', asc ''Tai Tong Road ('' @ [0x5927, 0x68E0, 0x8DEF] @ asc '')''),
    (asc ''600'', asc ''Yuen Long ('' @ [0x5143, 0x6717] @ asc '')''),
    (asc ''920'', asc ''Sam Shing ('' @ [0x4E09, 0x8056] @ asc '')'')]"

definition object_literal :: "(jsstring \<times> 'v) list \<Rightarrow> (jsstring \<times> 'v) list" where
  "object_literal props = foldl (\<lambda>obj (k, v). AList.update k v obj) [] props"

definition STATIONS :: "(jsstring \<times> jsstring) list" where
  "STATIONS = object_literal STATIONS_literal"

text \<open>
  \<^verbatim>\<open>Object.entries(obj)\<close> lists the own properties in the order of the language's
  own-property-keys rule: the keys that are array indices (canonical decimal numerals
  below \<open>2^32 - 1\<close>) first, in ascending numeric order, then the other string keys in
  creation order.
\<close>

definition is_digit :: "code_unit \<Rightarrow> bool" where
  "is_digit u = (48 \<le> u \<and> u \<le> 57)"

definition index_value :: "jsstring \<Rightarrow> nat" where
  "index_value k = foldl (\<lambda>n u. 10 * n + (u - 48)) 0 k"

definition isArrayIndex :: "jsstring \<Rightarrow> bool" where
  "isArrayIndex k =
     (case k of
        [] \<Rightarrow> False
      | u # us \<Rightarrow> list_all is_digit k \<and> (if u = 48 then us = [] else True)
                 \<and> index_value k < 2 ^ 32 - 1)"

definition Object_entries :: "(jsstring \<times> 'v) list \<Rightarrow> (jsstring \<times> 'v) list" where
  "Object_entries obj =
     sort_key (\<lambda>p. index_value (fst p)) (filter (\<lambda>p. isArrayIndex (fst p)) obj)
     @ filter (\<lambda>p. \<not> isArrayIndex (fst p)) obj"

section \<open>The station search\<close>

text \<open>
  \<^verbatim>\<open>filteredStations\<close> (the \<^verbatim>\<open>useMemo\<close> of the component): with an empty search text,
  all entries; otherwise the entries whose name includes the text after lower-casing
  both, or includes it verbatim, or whose id is the text.
\<close>

definition filteredStations ::
    "(jsstring \<Rightarrow> jsstring) \<Rightarrow> jsstring \<Rightarrow> (jsstring \<times> jsstring) list" where
  "filteredStations toLowerCase search =
     (if search = [] then Object_entries STATIONS
      else
        let lower = toLowerCase search
        in filter (\<lambda>(sid, name).
                     str_includes (toLowerCase name) lower
                     \<or> str_includes name search
                     \<or> sid = search)
             (Object_entries STATIONS))"

section \<open>The schedule payload\<close>

text \<open>
  The interfaces \<^verbatim>\<open>Route\<close>, \<^verbatim>\<open>Platform\<close> and \<^verbatim>\<open>ApiResponse\<close>. An optional field
  (\<^verbatim>\<open>route_list?\<close>, \<^verbatim>\<open>platform_list?\<close>) is an option. The numbers of the payload are
  integers.
\<close>

datatype arrival_departure = Arrival | Departure

record Route =
  train_length :: int
  arrival_departure :: arrival_departure
  dest_en :: jsstring
  dest_ch :: jsstring
  time_en :: jsstring
  time_ch :: jsstring
  route_no :: jsstring
  stop :: int

record Platform =
  platform_id :: int
  route_list :: "Route list option"

record ApiResponse =
  status :: int
  system_time :: jsstring
  platform_list :: "Platform list option"

section \<open>The component state and its handlers\<close>

text \<open>
  What \<^verbatim>\<open>axios.get\<close> rejects with: no response, or a response whose HTTP status is
  outside 2xx.
\<close>

datatype transport_error = NetworkError | HttpError int

datatype lifecycle = Created | Mounted | Unmounted

text \<open>
  The four \<^verbatim>\<open>useState\<close> cells of \<^verbatim>\<open>App\<close>, and what the component holds in its
  environment: where it is in its life, the armed \<^verbatim>\<open>setInterval\<close> (its period in
  milliseconds and the station id its callback closed over), the requests awaiting a
  response (the station id each was issued for, oldest first) and what was written with
  \<^verbatim>\<open>console.error\<close>.
\<close>

record app_state =
  search :: jsstring
  selectedId :: jsstring
  data :: "ApiResponse option"
  loading :: bool
  lifecycle :: lifecycle
  interval :: "(nat \<times> jsstring) option"
  in_flight :: "jsstring list"
  console :: "transport_error list"

definition init :: app_state where
  "init = \<lparr>search = [], selectedId = asc ''600'', data = None, loading = False,
            lifecycle = Created, interval = None, in_flight = [], console = []\<rparr>"

text \<open>
  \<^verbatim>\<open>fetchData(id)\<close> up to its \<^verbatim>\<open>await\<close>: the loading flag is raised and the request
  is sent.
\<close>

definition fetchData_start :: "jsstring \<Rightarrow> app_state \<Rightarrow> app_state" where
  "fetchData_start sid s = s\<lparr>loading := True, in_flight := in_flight s @ [sid]\<rparr>"

text \<open>
  \<^verbatim>\<open>fetchData\<close> after its \<^verbatim>\<open>await\<close>: the \<^verbatim>\<open>try\<close> branch stores the body of the
  response, the \<^verbatim>\<open>catch\<close> branch logs the error and stores \<^verbatim>\<open>null\<close>, and
  \<^verbatim>\<open>finally\<close> lowers the loading flag.
\<close>

definition fetchData_settle ::
    "transport_error + ApiResponse \<Rightarrow> app_state \<Rightarrow> app_state" where
  "fetchData_settle outcome s =
     (case outcome of
        Inr res \<Rightarrow> (s\<lparr>data := Some res\<rparr>)\<lparr>loading := False\<rparr>
      | Inl err \<Rightarrow> (s\<lparr>console := console s @ [err], data := None\<rparr>)\<lparr>loading := False\<rparr>)"

text \<open>
  The effect with dependency \<^verbatim>\<open>[selectedId]\<close>: its body fetches the selected station
  and arms the interval, whose callback closes over the same id; its cleanup clears the
  interval.
\<close>

definition useEffect_run :: "app_state \<Rightarrow> app_state" where
  "useEffect_run s =
     (fetchData_start (selectedId s) s)\<lparr>interval := Some (20000, selectedId s)\<rparr>"

definition useEffect_cleanup :: "app_state \<Rightarrow> app_state" where
  "useEffect_cleanup s = s\<lparr>interval := None\<rparr>"

text \<open>The \<^verbatim>\<open>onClick\<close> of a dropdown item and the \<^verbatim>\<open>onChange\<close> of the search box.\<close>

definition onClick :: "jsstring \<Rightarrow> app_state \<Rightarrow> app_state" where
  "onClick sid s = s\<lparr>selectedId := sid, search := []\<rparr>"

definition onChange :: "jsstring \<Rightarrow> app_state \<Rightarrow> app_state" where
  "onChange text s = s\<lparr>search := text\<rparr>"

text \<open>
  After a handler has run the component renders again, and the effect is run again
  (cleanup first) only when its dependency differs from the one of the last render.
\<close>

definition commit_effect :: "jsstring \<Rightarrow> app_state \<Rightarrow> app_state" where
  "commit_effect previous s =
     (if selectedId s = previous then s else useEffect_run (useEffect_cleanup s))"

text \<open>
  What can happen to the component, one event at a time (the event loop runs one
  callback to its end before the next): a handler, the render that follows it and the
  effects of that render are one step. A dropdown item can be clicked only while it is
  shown: the search text is not empty and the station is among the filtered ones. A
  cleared interval does not fire. A response or a failure arrives only for a request
  that is awaiting one, and completes the oldest request for that station. The state
  setters called after the component was unmounted are applied to the state as the code
  calls them; nothing is rendered from it any more.
\<close>

datatype event =
    Mount
  | TypeSearch jsstring
  | ClickItem jsstring
  | Tick
  | Settle jsstring "transport_error + ApiResponse"
  | Unmount

fun step :: "(jsstring \<Rightarrow> jsstring) \<Rightarrow> event \<Rightarrow> app_state \<Rightarrow> app_state" where
  "step lc Mount s =
     (if lifecycle s = Created then useEffect_run (s\<lparr>lifecycle := Mounted\<rparr>) else s)"
| "step lc (TypeSearch text) s =
     (if lifecycle s = Mounted then onChange text s else s)"
| "step lc (ClickItem sid) s =
     (if lifecycle s = Mounted \<and> search s \<noteq> []
         \<and> sid \<in> set (map fst (filteredStations lc (search s)))
      then commit_effect (selectedId s) (onClick sid s) else s)"
| "step lc Tick s =
     (case interval s of
        None \<Rightarrow> s
      | Some (period, captured) \<Rightarrow> fetchData_start captured s)"
| "step lc (Settle sid outcome) s =
     (if sid \<in> set (in_flight s)
      then fetchData_settle outcome (s\<lparr>in_flight := remove1 sid (in_flight s)\<rparr>)
      else s)"
| "step lc Unmount s =
     (if lifecycle s = Mounted then useEffect_cleanup (s\<lparr>lifecycle := Unmounted\<rparr>) else s)"

fun run :: "(jsstring \<Rightarrow> jsstring) \<Rightarrow> event list \<Rightarrow> app_state \<Rightarrow> app_state" where
  "run lc [] s = s"
| "run lc (e # es) s = run lc es (step lc e s)"

section \<open>Rendering\<close>

text \<open>
  The JSX that \<^verbatim>\<open>App\<close> returns, as a tree of what is shown. The \<^verbatim>\<open>className\<close> of a
  route item is the template literal of the source, spaces included; \<open>classList\<close>
  reads it the way the DOM does, as the tokens between spaces.
\<close>

record route_item =
  item_key :: nat
  className :: string
  shown_route_no :: jsstring
  shown_dest_en :: jsstring
  shown_dest_ch :: jsstring
  shown_time_en :: jsstring
  shown_time_ch :: jsstring
  length_label :: string

datatype routes_view = RouteItems "route_item list" | RoutesMessage string

record platform_card =
  card_key :: int
  header_platform :: int
  routes :: routes_view

datatype platforms_view = PlatformCards "platform_card list" | PlatformsMessage string

datatype main_view =
    Schedule "jsstring option" platforms_view jsstring
  | MainMessage string

datatype dropdown_view = NoStationFound | DropdownItems "(jsstring \<times> jsstring) list"

record view =
  search_box :: jsstring
  dropdown :: "dropdown_view option"
  spinner :: bool
  main :: main_view

definition route_className :: "Route \<Rightarrow> string" where
  "route_className route =
     ''route-item '' @ (if train_length route = 2 then ''coupled'' else [])
     @ '' '' @ (if time_en route = asc ''-'' then ''arriving'' else [])
     @ '' '' @ (if stop route = 1 then ''stopped'' else [])"

fun split_spaces :: "string \<Rightarrow> string \<Rightarrow> string list" where
  "split_spaces tok [] = (if tok = [] then [] else [tok])"
| "split_spaces tok (c # cs) =
     (if c = CHR '' ''
      then (if tok = [] then split_spaces [] cs else tok # split_spaces [] cs)
      else split_spaces (tok @ [c]) cs)"

definition classList :: "string \<Rightarrow> string list" where
  "classList cn = split_spaces [] cn"

definition render_route :: "nat \<Rightarrow> Route \<Rightarrow> route_item" where
  "render_route i route =
     \<lparr>item_key = i,
      className = route_className route,
      shown_route_no = route_no route,
      shown_dest_en = dest_en route,
      shown_dest_ch = dest_ch route,
      shown_time_en = time_en route,
      shown_time_ch = time_ch route,
      length_label = (if train_length route = 1 then ''Single'' else ''Coupled'')\<rparr>"

text \<open>
  \<^verbatim>\<open>platform.route_list?.length ? ... : ...\<close>: an absent list and a list of length 0
  both take the second branch.
\<close>

definition render_routes :: "Route list option \<Rightarrow> routes_view" where
  "render_routes rl =
     (case rl of
        None \<Rightarrow> RoutesMessage ''No routes available for this platform''
      | Some rs \<Rightarrow>
          if length rs = 0 then RoutesMessage ''No routes available for this platform''
          else RouteItems (map (\<lambda>(i, route). render_route i route) (enumerate 0 rs)))"

definition render_platform :: "Platform \<Rightarrow> platform_card" where
  "render_platform platform =
     \<lparr>card_key = platform_id platform,
      header_platform = platform_id platform,
      routes = render_routes (route_list platform)\<rparr>"

definition render_platforms :: "Platform list option \<Rightarrow> platforms_view" where
  "render_platforms pl =
     (case pl of
        None \<Rightarrow> PlatformsMessage ''No platform information available.''
      | Some ps \<Rightarrow>
          if length ps = 0 then PlatformsMessage ''No platform information available.''
          else PlatformCards (map render_platform ps))"

text \<open>
  The \<^verbatim>\<open>main\<close> element below the spinner. \<open>toLocaleTimeString\<close> stands for
  \<^verbatim>\<open>new Date(t).toLocaleTimeString('en-HK')\<close>, a function of the string in a given
  browser; the title is the table's entry for the selected id.
\<close>

definition render_main :: "(jsstring \<Rightarrow> jsstring) \<Rightarrow> app_state \<Rightarrow> main_view" where
  "render_main toLocaleTimeString s =
     (case data s of
        None \<Rightarrow> MainMessage ''No data available or service error. Please try again.''
      | Some d \<Rightarrow>
          if status d = 1
          then Schedule (map_of STATIONS (selectedId s))
                 (render_platforms (platform_list d))
                 (if system_time d = [] then [] else toLocaleTimeString (system_time d))
          else MainMessage ''No data available or service error. Please try again.'')"

definition render ::
    "(jsstring \<Rightarrow> jsstring) \<Rightarrow> (jsstring \<Rightarrow> jsstring) \<Rightarrow> app_state \<Rightarrow> view" where
  "render lc toLocaleTimeString s =
     \<lparr>search_box = search s,
      dropdown =
        (if search s = [] then None
         else Some (if length (filteredStations lc (search s)) = 0 then NoStationFound
                    else DropdownItems (filteredStations lc (search s)))),
      spinner = loading s,
      main = render_main toLocaleTimeString s\<rparr>"

text \<open>What is on the screen: the rendering of a mounted component, nothing otherwise.\<close>

definition screen ::
    "(jsstring \<Rightarrow> jsstring) \<Rightarrow> (jsstring \<Rightarrow> jsstring) \<Rightarrow> app_state \<Rightarrow> view option" where
  "screen lc toLocaleTimeString s =
     (if lifecycle s = Mounted then Some (render lc toLocaleTimeString s) else None)"

section \<open>The station table is in ascending key order\<close>

lemma update_fresh: "k \<notin> fst ` set al \<Longrightarrow> AList.update k v al = al @ [(k, v)]"
  by (induction al) auto

lemma foldl_update_distinct:
  "distinct (map fst (acc @ ps)) \<Longrightarrow>
   foldl (\<lambda>obj (k, v). AList.update k v obj) acc ps = acc @ ps"
proof (induction ps arbitrary: acc)
  case Nil
  then show ?case by simp
next
  case (Cons p ps)
  obtain k v where p: "p = (k, v)" by (cases p)
  from Cons.prems have fresh: "k \<notin> fst ` set acc" by (auto simp: p)
  from Cons.prems have "distinct (map fst ((acc @ [(k, v)]) @ ps))" by (simp add: p)
  from Cons.IH [OF this] show ?case by (simp add: p update_fresh [OF fresh])
qed

lemma object_literal_distinct: "distinct (map fst ps) \<Longrightarrow> object_literal ps = ps"
  using foldl_update_distinct [of "[]" ps] by (simp add: object_literal_def)

lemma ascending_keys_distinct:
  assumes "sorted_wrt (<) (map (\<lambda>p. index_value (fst p)) ps)"
  shows "distinct (map fst ps)"
proof -
  have eq: "map (\<lambda>p. index_value (fst p)) ps = map index_value (map fst ps)"
    by simp
  have "distinct (map index_value (map fst ps))"
    using assms unfolding eq by (simp only: strict_sorted_iff)
  then show ?thesis
    using distinct_map [of index_value "map fst ps"] by blast
qed

lemma Object_entries_ascending:
  assumes "list_all (\<lambda>p. isArrayIndex (fst p)) obj"
    and "sorted (map (\<lambda>p. index_value (fst p)) obj)"
  shows "Object_entries obj = obj"
proof -
  have "filter (\<lambda>p. isArrayIndex (fst p)) obj = obj"
    using assms(1) by (simp add: list_all_iff)
  moreover have "filter (\<lambda>p. \<not> isArrayIndex (fst p)) obj = []"
    using assms(1) by (simp add: list_all_iff)
  ultimately show ?thesis
    by (simp add: Object_entries_def sort_key_id_if_sorted [OF assms(2)])
qed

lemma STATIONS_keys_ascending:
  "successively (<) (map (\<lambda>p. index_value (fst p)) STATIONS_literal)"
  unfolding STATIONS_literal_def by (simp add: asc_def index_value_def)

lemma STATIONS_keys_sorted:
  "sorted_wrt (<) (map (\<lambda>p. index_value (fst p)) STATIONS_literal)"
  using STATIONS_keys_ascending by (simp add: successively_conv_sorted_wrt)

lemma STATIONS_keys_indices: "list_all (\<lambda>p. isArrayIndex (fst p)) STATIONS_literal"
  unfolding STATIONS_literal_def
  by (simp add: asc_def index_value_def isArrayIndex_def is_digit_def)

lemma STATIONS_object: "STATIONS = STATIONS_literal"
  unfolding STATIONS_def
  by (rule object_literal_distinct) (rule ascending_keys_distinct [OF STATIONS_keys_sorted])

lemma STATIONS_entries: "Object_entries STATIONS = STATIONS_literal"
  unfolding STATIONS_object
  by (rule Object_entries_ascending [OF STATIONS_keys_indices])
     (rule strict_sorted_imp_sorted [OF STATIONS_keys_sorted])

lemma str_includes_sublist: "str_includes s q \<longleftrightarrow> sublist q s"
  by (induction s) (simp_all add: sublist_Cons_right)

lemma STATIONS_plain: "list_all (\<lambda>p. plain (snd p)) STATIONS_literal"
  unfolding STATIONS_literal_def by (simp add: asc_def plain_def plain_unit_def)

section \<open>The search as a filter of the table\<close>

lemma filteredStations_filter:
  "filteredStations lc q =
     filter (\<lambda>(sid, name). sublist (lc q) (lc name) \<or> sublist q name \<or> sid = q)
       STATIONS_literal"
proof (cases "q = []")
  case True
  then show ?thesis by (simp add: filteredStations_def STATIONS_entries)
next
  case False
  then show ?thesis
    by (simp add: filteredStations_def STATIONS_entries str_includes_sublist)
qed

lemma lowers_plain_basic: "lowers_plain toLowerCase_basic"
  by (simp add: lowers_plain_def)

lemma filteredStations_plain:
  assumes "lowers_plain lc" and "plain q"
  shows "filteredStations lc q = filteredStations toLowerCase_basic q"
proof -
  have q: "lc q = toLowerCase_basic q"
    using assms by (simp add: lowers_plain_def)
  have names: "lc name = toLowerCase_basic name" if "(sid, name) \<in> set STATIONS_literal"
    for sid name
  proof -
    from that STATIONS_plain have "plain name" by (auto simp: list_all_iff)
    with assms(1) show ?thesis by (simp add: lowers_plain_def)
  qed
  show ?thesis
    unfolding filteredStations_filter q
    by (rule filter_cong) (auto simp: names)
qed

lemma search_600_basic:
  "filteredStations toLowerCase_basic (asc ''600'') =
     [(asc ''600'', asc ''Yuen Long ('' @ [0x5143, 0x6717] @ asc '')'')]"
  unfolding filteredStations_def STATIONS_entries STATIONS_literal_def
  by (simp add: asc_def toLowerCase_basic_def lower_unit_def)

lemma search_Yuen_Long_basic:
  "map fst (filteredStations toLowerCase_basic (asc ''Yuen Long'')) = [asc ''600'']"
  unfolding filteredStations_def STATIONS_entries STATIONS_literal_def
  by (simp add: asc_def toLowerCase_basic_def lower_unit_def)

lemma search_chinese_basic:
  "map fst (filteredStations toLowerCase_basic [0x5143, 0x6717]) = [asc ''600'']"
  unfolding filteredStations_def STATIONS_entries STATIONS_literal_def
  by (simp add: asc_def toLowerCase_basic_def lower_unit_def)

lemma search_60_basic:
  "map fst (filteredStations toLowerCase_basic (asc ''60'')) = [asc ''60'']"
  unfolding filteredStations_def STATIONS_entries STATIONS_literal_def
  by (simp add: asc_def toLowerCase_basic_def lower_unit_def)

lemma plain_queries:
  "plain (asc ''600'')" "plain (asc ''Yuen Long'')" "plain [0x5143, 0x6717]"
  by (simp_all add: asc_def plain_def plain_unit_def)

lemma title_600:
  "map_of STATIONS (asc ''600'') = Some (asc ''Yuen Long ('' @ [0x5143, 0x6717] @ asc '')'')"
  unfolding STATIONS_object STATIONS_literal_def by (simp add: asc_def)


section \<open>Invariants of the component\<close>

lemmas handler_defs =
  useEffect_run_def useEffect_cleanup_def fetchData_start_def fetchData_settle_def
  onClick_def onChange_def commit_effect_def







lemma step_loading:
  assumes "loading s \<Longrightarrow> in_flight s \<noteq> []"
  shows "loading (step lc e s) \<Longrightarrow> in_flight (step lc e s) \<noteq> []"
  using assms
  by (cases e) (auto simp: handler_defs split: sum.splits if_splits option.splits)

lemma run_loading:
  assumes "loading s \<Longrightarrow> in_flight s \<noteq> []"
  shows "loading (run lc es s) \<Longrightarrow> in_flight (run lc es s) \<noteq> []"
  using assms
proof (induction es arbitrary: s)
  case Nil
  then show ?case by simp
next
  case (Cons e es)
  have "loading (step lc e s) \<Longrightarrow> in_flight (step lc e s) \<noteq> []"
    using step_loading [of s lc e] Cons.prems(2) by blast
  from Cons.IH [OF _ this] Cons.prems(1) show ?case by simp
qed

lemma step_issue_raises:
  "length (in_flight s) < length (in_flight (step lc e s)) \<Longrightarrow> loading (step lc e s)"
  by (cases e) (auto simp: handler_defs length_remove1 split: sum.splits if_splits option.splits)

lemma step_complete_lowers:
  "length (in_flight (step lc e s)) < length (in_flight s) \<Longrightarrow> \<not> loading (step lc e s)"
  by (cases e) (auto simp: handler_defs split: sum.splits if_splits option.splits)

section \<open>Evaluated steps\<close>

lemma search_1_basic:
  "map fst (filteredStations toLowerCase_basic (asc ''1'')) = [asc ''1'']"
  unfolding filteredStations_def STATIONS_entries STATIONS_literal_def
  by (simp add: asc_def toLowerCase_basic_def lower_unit_def)

lemma title_1:
  "map_of STATIONS (asc ''1'') =
     Some (asc ''Tuen Mun Ferry Pier ('' @ [0x5C6F, 0x9580, 0x78BC, 0x982D] @ asc '')'')"
  unfolding STATIONS_object STATIONS_literal_def by (simp add: asc_def)

lemma asc_1_600: "asc ''1'' \<noteq> asc ''600''" "asc ''600'' \<noteq> asc ''1''" "asc ''1'' \<noteq> []"
  by (simp_all add: asc_def)

lemma mounted:
  "step lc Mount init =
     \<lparr>search = [], selectedId = asc ''600'', data = None, loading = True,
      lifecycle = Mounted, interval = Some (20000, asc ''600''),
      in_flight = [asc ''600''], console = []\<rparr>"
  by (simp add: init_def handler_defs)

lemma select_1:
  "run toLowerCase_basic [Mount, TypeSearch (asc ''1''), ClickItem (asc ''1'')] init =
     \<lparr>search = [], selectedId = asc ''1'', data = None, loading = True,
      lifecycle = Mounted, interval = Some (20000, asc ''1''),
      in_flight = [asc ''600'', asc ''1''], console = []\<rparr>"
proof -
  have "run toLowerCase_basic [Mount, TypeSearch (asc ''1''), ClickItem (asc ''1'')] init =
        step toLowerCase_basic (ClickItem (asc ''1''))
          (step toLowerCase_basic (TypeSearch (asc ''1'')) (step toLowerCase_basic Mount init))"
    by simp
  also have "\<dots> = \<lparr>search = [], selectedId = asc ''1'', data = None, loading = True,
      lifecycle = Mounted, interval = Some (20000, asc ''1''),
      in_flight = [asc ''600'', asc ''1''], console = []\<rparr>"
    unfolding mounted by (simp add: handler_defs search_1_basic asc_1_600)
  finally show ?thesis .
qed

lemma classList_marks:
  "classList (route_className route) =
     [''route-item'']
     @ (if train_length route = 2 then [''coupled''] else [])
     @ (if time_en route = asc ''-'' then [''arriving''] else [])
     @ (if stop route = 1 then [''stopped''] else [])"
  by (simp add: classList_def route_className_def)

section \<open>The claims on the station search\<close>

text \<open>
  C6. With the empty search text the search returns every station of the table, in the
  order of the table: what \<^verbatim>\<open>Object.entries\<close> lists for the table is the object
  literal in source order, because its keys are array indices written in ascending
  order.
\<close>

theorem filteredStations_empty_query:
  "filteredStations lc [] = STATIONS_literal \<and> Object_entries STATIONS = STATIONS_literal"
  by (simp add: filteredStations_def STATIONS_entries)

text \<open>
  C5, as the specification states it, fails: a station whose id merely contains the
  search text is not returned. The text \<^verbatim>\<open>60\<close> occurs in the id \<^verbatim>\<open>600\<close> of the table,
  and the search for \<^verbatim>\<open>60\<close> returns the station \<^verbatim>\<open>60\<close> only.
\<close>

theorem search_substring_of_id_counterexample:
  "sublist (asc ''60'') (asc ''600'')
   \<and> asc ''600'' \<in> set (map fst STATIONS_literal)
   \<and> map fst (filteredStations toLowerCase_basic (asc ''60'')) = [asc ''60'']"
proof -
  have "asc ''600'' = asc ''60'' @ asc ''0''" by (simp add: asc_def)
  then have "sublist (asc ''60'') (asc ''600'')" by (simp add: sublist_append)
  moreover have "asc ''600'' \<in> set (map fst STATIONS_literal)"
    unfolding STATIONS_literal_def by (simp add: asc_def)
  ultimately show ?thesis using search_60_basic by simp
qed

text \<open>
  C5, amended. For every search text the search returns, in table order, exactly the
  stations whose name (the one string \<^verbatim>\<open>English (Chinese)\<close> of the table) contains the
  text, either after lower-casing both or verbatim, or whose id is the text itself.
  With a \<^verbatim>\<open>toLowerCase\<close> that is the basic one on plain strings, the search for
  \<^verbatim>\<open>600\<close> returns exactly the station \<^verbatim>\<open>600\<close>, and the searches for \<^verbatim>\<open>Yuen Long\<close>
  and for its Chinese name (U+5143 U+6717) both include the station \<^verbatim>\<open>600\<close>.
\<close>

theorem filteredStations_matches:
  "set (filteredStations lc q) =
     {(sid, name). (sid, name) \<in> set STATIONS_literal
                   \<and> (sublist (lc q) (lc name) \<or> sublist q name \<or> sid = q)}
   \<and> subseq (filteredStations lc q) STATIONS_literal
   \<and> (lowers_plain lc \<longrightarrow>
        filteredStations lc (asc ''600'') =
          [(asc ''600'', asc ''Yuen Long ('' @ [0x5143, 0x6717] @ asc '')'')]
        \<and> asc ''600'' \<in> set (map fst (filteredStations lc (asc ''Yuen Long'')))
        \<and> asc ''600'' \<in> set (map fst (filteredStations lc [0x5143, 0x6717])))"
proof (intro conjI impI)
  show "set (filteredStations lc q) =
     {(sid, name). (sid, name) \<in> set STATIONS_literal
                   \<and> (sublist (lc q) (lc name) \<or> sublist q name \<or> sid = q)}"
    unfolding filteredStations_filter by auto
  show "subseq (filteredStations lc q) STATIONS_literal"
    unfolding filteredStations_filter by simp
next
  assume lc: "lowers_plain lc"
  show "filteredStations lc (asc ''600'') =
          [(asc ''600'', asc ''Yuen Long ('' @ [0x5143, 0x6717] @ asc '')'')]"
    by (simp only: filteredStations_plain [OF lc plain_queries(1)] search_600_basic)
  show "asc ''600'' \<in> set (map fst (filteredStations lc (asc ''Yuen Long'')))"
    by (simp only: filteredStations_plain [OF lc plain_queries(2)] search_Yuen_Long_basic
        list.set_intros)
  show "asc ''600'' \<in> set (map fst (filteredStations lc [0x5143, 0x6717]))"
    by (simp only: filteredStations_plain [OF lc plain_queries(3)] search_chinese_basic
        list.set_intros)
qed

theorem filteredStations_matches_witness:
  "lowers_plain toLowerCase_basic
   \<and> filteredStations toLowerCase_basic (asc ''600'') =
        [(asc ''600'', asc ''Yuen Long ('' @ [0x5143, 0x6717] @ asc '')'')]
   \<and> asc ''600'' \<in> set (map fst (filteredStations toLowerCase_basic (asc ''Yuen Long'')))
   \<and> asc ''600'' \<in> set (map fst (filteredStations toLowerCase_basic [0x5143, 0x6717]))
   \<and> subseq (filteredStations toLowerCase_basic (asc ''Yuen Long'')) STATIONS_literal"
  using filteredStations_matches [of toLowerCase_basic "asc ''Yuen Long''"] lowers_plain_basic
  by (simp only: simp_thms)

section \<open>The claims on the component\<close>

text \<open>
  C9. At startup the selected station is \<^verbatim>\<open>600\<close>, which the table names Yuen Long,
  the search text is empty and there is no snapshot; no interval is armed yet, so no
  tick can fetch, and mounting itself sends the request for \<^verbatim>\<open>600\<close> (and arms the
  interval).
\<close>

theorem startup:
  "search init = [] \<and> selectedId init = asc ''600'' \<and> data init = None
   \<and> loading init = False
   \<and> map_of STATIONS (selectedId init) =
        Some (asc ''Yuen Long ('' @ [0x5143, 0x6717] @ asc '')'')
   \<and> in_flight init = [] \<and> step lc Tick init = init
   \<and> in_flight (step lc Mount init) = [asc ''600'']
   \<and> interval (step lc Mount init) = Some (20000, asc ''600'')
   \<and> search (step lc Mount init) = [] \<and> selectedId (step lc Mount init) = asc ''600''
   \<and> data (step lc Mount init) = None"
proof -
  have "map_of STATIONS (selectedId init) =
        Some (asc ''Yuen Long ('' @ [0x5143, 0x6717] @ asc '')'')"
    using title_600 by (simp add: init_def)
  then show ?thesis
    by (simp add: init_def useEffect_run_def fetchData_start_def)
qed



text \<open>
  C10. The loading flag is raised by the start of a fetch and lowered by its
  completion, whatever the outcome: a step that sends a request leaves the flag raised,
  a step that completes one leaves it lowered. The spinner shows the flag, and in every
  reachable state with the flag raised a request is awaiting its response.
\<close>

theorem loading_flag:
  "loading (fetchData_start sid s)
   \<and> \<not> loading (fetchData_settle outcome s)
   \<and> (length (in_flight s) < length (in_flight (step lc e s)) \<longrightarrow> loading (step lc e s))
   \<and> (length (in_flight (step lc e s)) < length (in_flight s) \<longrightarrow> \<not> loading (step lc e s))
   \<and> spinner (render lc fmt (run lc es init)) = loading (run lc es init)
   \<and> (loading (run lc es init) \<longrightarrow> in_flight (run lc es init) \<noteq> [])"
proof -
  have "loading (fetchData_start sid s)" by (simp add: fetchData_start_def)
  moreover have "\<not> loading (fetchData_settle outcome s)"
    by (simp add: fetchData_settle_def split: sum.splits)
  moreover have "spinner (render lc fmt (run lc es init)) = loading (run lc es init)"
    by (simp add: render_def)
  moreover have "loading (run lc es init) \<longrightarrow> in_flight (run lc es init) \<noteq> []"
    using run_loading [of init lc es] by (simp add: init_def)
  ultimately show ?thesis
    using step_issue_raises [of s lc e] step_complete_lowers [of lc e s] by blast
qed

theorem loading_flag_witness:
  "length (in_flight (step toLowerCase_basic Mount init))
     < length (in_flight (step toLowerCase_basic Tick (step toLowerCase_basic Mount init)))
   \<and> loading (step toLowerCase_basic Tick (step toLowerCase_basic Mount init))
   \<and> length (in_flight (step toLowerCase_basic (Settle (asc ''600'') (Inl NetworkError))
        (step toLowerCase_basic Mount init)))
     < length (in_flight (step toLowerCase_basic Mount init))
   \<and> \<not> loading (step toLowerCase_basic (Settle (asc ''600'') (Inl NetworkError))
        (step toLowerCase_basic Mount init))
   \<and> loading (run toLowerCase_basic [Mount] init)
   \<and> in_flight (run toLowerCase_basic [Mount] init) \<noteq> []"
proof -
  have grows: "length (in_flight (step toLowerCase_basic Mount init))
     < length (in_flight (step toLowerCase_basic Tick (step toLowerCase_basic Mount init)))"
    unfolding mounted by (simp add: handler_defs)
  have shrinks: "length (in_flight (step toLowerCase_basic (Settle (asc ''600'') (Inl NetworkError))
        (step toLowerCase_basic Mount init)))
     < length (in_flight (step toLowerCase_basic Mount init))"
    unfolding mounted by (simp add: handler_defs)
  have busy: "loading (run toLowerCase_basic [Mount] init)"
    unfolding run.simps mounted by simp
  from loading_flag
      [of "asc ''600''" "step toLowerCase_basic Mount init" "Inl NetworkError"
          toLowerCase_basic Tick "\<lambda>t. t" "[Mount]"]
    loading_flag
      [of "asc ''600''" "step toLowerCase_basic Mount init" "Inl NetworkError"
          toLowerCase_basic "Settle (asc ''600'') (Inl NetworkError)" "\<lambda>t. t" "[Mount]"]
    grows shrinks busy
  show ?thesis by blast
qed

text \<open>
  C1, as the specification states it, fails: nothing ties a response to the station
  that is selected when it arrives. The user selects station \<^verbatim>\<open>1\<close> while the first
  request for \<^verbatim>\<open>600\<close> is awaiting its response; the response for \<^verbatim>\<open>1\<close> arrives, then
  the one for \<^verbatim>\<open>600\<close>. The selected station is \<^verbatim>\<open>1\<close> and the snapshot is the late
  response for \<^verbatim>\<open>600\<close>.
\<close>

theorem stale_response_counterexample:
  "selectedId
     (run toLowerCase_basic
        [Mount, TypeSearch (asc ''1''), ClickItem (asc ''1''),
         Settle (asc ''1'')
           (Inr \<lparr>status = 1, system_time = asc ''2024-01-01T10:00:02'',
                 platform_list = Some [\<lparr>platform_id = 1, route_list = None\<rparr>]\<rparr>),
         Settle (asc ''600'')
           (Inr \<lparr>status = 1, system_time = asc ''2024-01-01T10:00:01'',
                 platform_list = Some [\<lparr>platform_id = 6, route_list = None\<rparr>]\<rparr>)]
        init) = asc ''1''
   \<and> data
     (run toLowerCase_basic
        [Mount, TypeSearch (asc ''1''), ClickItem (asc ''1''),
         Settle (asc ''1'')
           (Inr \<lparr>status = 1, system_time = asc ''2024-01-01T10:00:02'',
                 platform_list = Some [\<lparr>platform_id = 1, route_list = None\<rparr>]\<rparr>),
         Settle (asc ''600'')
           (Inr \<lparr>status = 1, system_time = asc ''2024-01-01T10:00:01'',
                 platform_list = Some [\<lparr>platform_id = 6, route_list = None\<rparr>]\<rparr>)]
        init) =
     Some \<lparr>status = 1, system_time = asc ''2024-01-01T10:00:01'',
           platform_list = Some [\<lparr>platform_id = 6, route_list = None\<rparr>]\<rparr>"
proof -
  have split: "run lc [e1, e2, e3, e4, e5] s = run lc [e4, e5] (run lc [e1, e2, e3] s)"
    for lc e1 e2 e3 e4 e5 s by simp
  show ?thesis
    unfolding split select_1 by (simp add: handler_defs asc_1_600)
qed

text \<open>
  C1, amended. A response is stored when it arrives, whichever station it was requested
  for: in every reachable state, the response to a request that is awaiting one becomes
  the snapshot and leaves the selection as it is, and with status 1 it is shown under
  the title of the selected station.
\<close>

theorem settle_replaces_snapshot:
  "sid \<in> set (in_flight (run lc es init)) \<longrightarrow>
     data (step lc (Settle sid (Inr res)) (run lc es init)) = Some res
     \<and> selectedId (step lc (Settle sid (Inr res)) (run lc es init))
         = selectedId (run lc es init)
     \<and> (status res = 1 \<longrightarrow>
          render_main fmt (step lc (Settle sid (Inr res)) (run lc es init)) =
            Schedule (map_of STATIONS (selectedId (run lc es init)))
              (render_platforms (platform_list res))
              (if system_time res = [] then [] else fmt (system_time res)))"
  by (simp add: fetchData_settle_def render_main_def)

theorem settle_replaces_snapshot_witness:
  "asc ''600'' \<in> set (in_flight
      (run toLowerCase_basic [Mount, TypeSearch (asc ''1''), ClickItem (asc ''1'')] init))
   \<and> status \<lparr>status = 1, system_time = [],
              platform_list = Some [\<lparr>platform_id = 6, route_list = None\<rparr>]\<rparr> = 1
   \<and> data (step toLowerCase_basic
        (Settle (asc ''600'')
           (Inr \<lparr>status = 1, system_time = [],
                 platform_list = Some [\<lparr>platform_id = 6, route_list = None\<rparr>]\<rparr>))
        (run toLowerCase_basic [Mount, TypeSearch (asc ''1''), ClickItem (asc ''1'')] init)) =
       Some \<lparr>status = 1, system_time = [],
             platform_list = Some [\<lparr>platform_id = 6, route_list = None\<rparr>]\<rparr>
   \<and> render_main (\<lambda>t. t) (step toLowerCase_basic
        (Settle (asc ''600'')
           (Inr \<lparr>status = 1, system_time = [],
                 platform_list = Some [\<lparr>platform_id = 6, route_list = None\<rparr>]\<rparr>))
        (run toLowerCase_basic [Mount, TypeSearch (asc ''1''), ClickItem (asc ''1'')] init)) =
       Schedule
         (Some (asc ''Tuen Mun Ferry Pier ('' @ [0x5C6F, 0x9580, 0x78BC, 0x982D] @ asc '')''))
         (PlatformCards
            [\<lparr>card_key = 6, header_platform = 6,
              routes = RoutesMessage ''No routes available for this platform''\<rparr>])
         []"
proof -
  have inflight: "asc ''600'' \<in> set (in_flight
      (run toLowerCase_basic [Mount, TypeSearch (asc ''1''), ClickItem (asc ''1'')] init))"
    unfolding select_1 by simp
  have sel: "selectedId
      (run toLowerCase_basic [Mount, TypeSearch (asc ''1''), ClickItem (asc ''1'')] init)
      = asc ''1''"
    unfolding select_1 by simp
  note t = settle_replaces_snapshot
    [of "asc ''600''" toLowerCase_basic
        "[Mount, TypeSearch (asc ''1''), ClickItem (asc ''1'')]"
        "\<lparr>status = 1, system_time = [],
          platform_list = Some [\<lparr>platform_id = 6, route_list = None\<rparr>]\<rparr>" "\<lambda>t. t",
     unfolded select_1]
  from t show ?thesis
    unfolding select_1
    by (simp add: title_1 render_platforms_def render_platform_def render_routes_def)
qed






section \<open>The claims on rendering\<close>

text \<open>
  C2, as the specification states it, fails: nothing normalizes an absent list. The
  response is stored as it arrived, so after a response without \<^verbatim>\<open>platform_list\<close> the
  snapshot holds an absent list, not the empty one, and after a response whose platform
  has no \<^verbatim>\<open>route_list\<close> the snapshot holds that platform with an absent list.
\<close>

theorem absent_list_stored_counterexample:
  "data (run toLowerCase_basic
      [Mount, Settle (asc ''600'')
         (Inr \<lparr>status = 1, system_time = [], platform_list = None\<rparr>)] init) =
     Some \<lparr>status = 1, system_time = [], platform_list = None\<rparr>
   \<and> map_option platform_list (data (run toLowerCase_basic
      [Mount, Settle (asc ''600'')
         (Inr \<lparr>status = 1, system_time = [], platform_list = None\<rparr>)] init)) \<noteq> Some (Some [])
   \<and> data (run toLowerCase_basic
      [Mount, Settle (asc ''600'')
         (Inr \<lparr>status = 1, system_time = [],
               platform_list = Some [\<lparr>platform_id = 1, route_list = None\<rparr>]\<rparr>)] init) =
     Some \<lparr>status = 1, system_time = [],
           platform_list = Some [\<lparr>platform_id = 1, route_list = None\<rparr>]\<rparr>
   \<and> map_option platform_list (data (run toLowerCase_basic
      [Mount, Settle (asc ''600'')
         (Inr \<lparr>status = 1, system_time = [],
               platform_list = Some [\<lparr>platform_id = 1, route_list = None\<rparr>]\<rparr>)] init))
       \<noteq> Some (Some [\<lparr>platform_id = 1, route_list = Some []\<rparr>])"
  unfolding run.simps mounted by (simp add: handler_defs)

text \<open>
  C2, amended. A response is stored as it arrived, absent lists included, and the
  absence is handled where the snapshot is rendered: an absent \<^verbatim>\<open>platform_list\<close> is
  rendered as the empty one is, by the message that there is no platform information,
  and a platform with an absent \<^verbatim>\<open>route_list\<close> is rendered as with the empty one, by
  its own card with the message that no routes are available and no route item. A
  platform with routes is rendered by its card with one item for each of its routes, in
  their order, and the cards of the platforms before and after a platform without
  routes are those of these platforms alone.
\<close>

theorem absent_lists_render_as_empty:
  "data (fetchData_settle (Inr res) s) = Some res
   \<and> render_platforms None = PlatformsMessage ''No platform information available.''
   \<and> render_platforms (Some []) = PlatformsMessage ''No platform information available.''
   \<and> render_main fmt (fetchData_settle (Inr (res\<lparr>platform_list := None\<rparr>)) s) =
       render_main fmt (fetchData_settle (Inr (res\<lparr>platform_list := Some []\<rparr>)) s)
   \<and> render_platform (p\<lparr>route_list := None\<rparr>) =
       \<lparr>card_key = platform_id p, header_platform = platform_id p,
        routes = RoutesMessage ''No routes available for this platform''\<rparr>
   \<and> render_platform (p\<lparr>route_list := Some []\<rparr>) =
       \<lparr>card_key = platform_id p, header_platform = platform_id p,
        routes = RoutesMessage ''No routes available for this platform''\<rparr>
   \<and> render_platform (q\<lparr>route_list := Some (r # rs)\<rparr>) =
       \<lparr>card_key = platform_id q, header_platform = platform_id q,
        routes = RouteItems (map (\<lambda>(i, route). render_route i route) (enumerate 0 (r # rs)))\<rparr>
   \<and> render_platforms (Some (before @ [p\<lparr>route_list := None\<rparr>] @ after)) =
       PlatformCards
         (map render_platform before @ [render_platform (p\<lparr>route_list := None\<rparr>)]
          @ map render_platform after)"
  by (simp add: render_platforms_def render_platform_def render_routes_def
      render_main_def fetchData_settle_def)

theorem absent_lists_render_as_empty_witness:
  "render_platforms
     (Some ([\<lparr>platform_id = 1,
              route_list = Some [\<lparr>train_length = 2, arrival_departure = Arrival,
                 dest_en = asc ''Yuen Long'', dest_ch = [0x5143, 0x6717],
                 time_en = asc ''-'', time_ch = asc ''-'',
                 route_no = asc ''610'', stop = 1\<rparr>]\<rparr>]
            @ [\<lparr>platform_id = 2, route_list = Some []\<rparr>\<lparr>route_list := None\<rparr>]
            @ [\<lparr>platform_id = 3,
                route_list = Some [\<lparr>train_length = 1, arrival_departure = Departure,
                 dest_en = asc ''Tuen Mun'', dest_ch = [0x5C6F, 0x9580],
                 time_en = asc ''2 min'', time_ch = asc ''2'',
                 route_no = asc ''614'', stop = 0\<rparr>]\<rparr>])) =
   PlatformCards
     [\<lparr>card_key = 1, header_platform = 1,
       routes = RouteItems
         [\<lparr>item_key = 0, className = ''route-item coupled arriving stopped'',
           shown_route_no = asc ''610'', shown_dest_en = asc ''Yuen Long'',
           shown_dest_ch = [0x5143, 0x6717], shown_time_en = asc ''-'',
           shown_time_ch = asc ''-'', length_label = ''Coupled''\<rparr>]\<rparr>,
      \<lparr>card_key = 2, header_platform = 2,
       routes = RoutesMessage ''No routes available for this platform''\<rparr>,
      \<lparr>card_key = 3, header_platform = 3,
       routes = RouteItems
         [\<lparr>item_key = 0, className = ''route-item   '',
           shown_route_no = asc ''614'', shown_dest_en = asc ''Tuen Mun'',
           shown_dest_ch = [0x5C6F, 0x9580], shown_time_en = asc ''2 min'',
           shown_time_ch = asc ''2'', length_label = ''Single''\<rparr>]\<rparr>]"
proof -
  note t = absent_lists_render_as_empty
    [where p = "\<lparr>platform_id = 2, route_list = Some []\<rparr>"
       and before = "[\<lparr>platform_id = 1,
              route_list = Some [\<lparr>train_length = 2, arrival_departure = Arrival,
                 dest_en = asc ''Yuen Long'', dest_ch = [0x5143, 0x6717],
                 time_en = asc ''-'', time_ch = asc ''-'',
                 route_no = asc ''610'', stop = 1\<rparr>]\<rparr>]"
       and after = "[\<lparr>platform_id = 3,
                route_list = Some [\<lparr>train_length = 1, arrival_departure = Departure,
                 dest_en = asc ''Tuen Mun'', dest_ch = [0x5C6F, 0x9580],
                 time_en = asc ''2 min'', time_ch = asc ''2'',
                 route_no = asc ''614'', stop = 0\<rparr>]\<rparr>]"]
  have neq: "asc ''2 min'' \<noteq> asc ''-''" by (simp add: asc_def)
  from t show ?thesis
    by (simp add: render_platform_def render_routes_def render_route_def
        route_className_def enumerate_eq_zip neq)
qed

text \<open>
  The marks of a route item. A route list that is not empty is rendered by one item
  for each route. The item has the class \<^verbatim>\<open>arriving\<close>
  exactly when its English time is the dash, the class \<^verbatim>\<open>stopped\<close> exactly when its
  stop flag is 1, and the class \<^verbatim>\<open>coupled\<close> exactly when its train length is 2. Its
  length label reads \<^verbatim>\<open>Coupled\<close> for train length 2 and \<^verbatim>\<open>Single\<close> for train
  length 1.
\<close>

lemma render_routes_items:
  "render_routes (Some (r # rs)) =
     RouteItems (map (\<lambda>(i, route). render_route i route) (enumerate 0 (r # rs)))"
  by (simp add: render_routes_def)

lemma route_marks:
  "(''arriving'' \<in> set (classList (className (render_route i route)))
      \<longleftrightarrow> time_en route = asc ''-'')
   \<and> (''stopped'' \<in> set (classList (className (render_route i route)))
      \<longleftrightarrow> stop route = 1)
   \<and> (''coupled'' \<in> set (classList (className (render_route i route)))
      \<longleftrightarrow> train_length route = 2)
   \<and> (train_length route = 2 \<longrightarrow> length_label (render_route i route) = ''Coupled'')
   \<and> (train_length route = 1 \<longrightarrow> length_label (render_route i route) = ''Single'')"
  by (simp add: render_route_def classList_marks)

text \<open>
  C7 at a train length other than 1 and 2: the specification marks every train length
  other than 2 as single, and the class test of the item agrees (no class
  \<^verbatim>\<open>coupled\<close>), but the length label of the same item tests for 1 and reads
  \<^verbatim>\<open>Coupled\<close>. The snapshot for station \<^verbatim>\<open>600\<close> with one platform and one route of
  train length 3 is rendered with the item below.
\<close>

theorem length_label_disagrees_with_class:
  "render_main (\<lambda>t. t) (run toLowerCase_basic
      [Mount, Settle (asc ''600'')
         (Inr \<lparr>status = 1, system_time = [],
               platform_list = Some [\<lparr>platform_id = 1,
                 route_list = Some [\<lparr>train_length = 3, arrival_departure = Departure,
                   dest_en = asc ''Yuen Long'', dest_ch = [0x5143, 0x6717],
                   time_en = asc ''2 min'', time_ch = asc ''2'',
                   route_no = asc ''610'', stop = 0\<rparr>]\<rparr>]\<rparr>)] init) =
     Schedule (Some (asc ''Yuen Long ('' @ [0x5143, 0x6717] @ asc '')''))
       (PlatformCards
          [\<lparr>card_key = 1, header_platform = 1,
            routes = RouteItems
              [\<lparr>item_key = 0, className = ''route-item   '',
                shown_route_no = asc ''610'', shown_dest_en = asc ''Yuen Long'',
                shown_dest_ch = [0x5143, 0x6717], shown_time_en = asc ''2 min'',
                shown_time_ch = asc ''2'', length_label = ''Coupled''\<rparr>]\<rparr>]) []
   \<and> classList ''route-item   '' = [''route-item'']"
proof -
  have neq: "asc ''2 min'' \<noteq> asc ''-''" by (simp add: asc_def)
  show ?thesis
    unfolding run.simps mounted
    by (simp add: handler_defs render_main_def render_platforms_def render_platform_def
        render_routes_def render_route_def route_className_def classList_def title_600
        enumerate_eq_zip neq)
qed

end
